theory Spec2Isabelle
  imports Main "HOL-Library.Word"
begin

section \<open>Data model\<close>

subsection \<open>Errors and tokens\<close>

text \<open>
  A Go \<open>error\<close> built by \<open>errors.New(msg)\<close>; \<open>Error\<close> is the method \<open>err.Error()\<close>.
  A nil \<open>error\<close> is \<open>None\<close> of \<open>error option\<close>.
\<close>

datatype error = errors_New (Error: string)

definition ErrNoMailboxSelected :: error where
  "ErrNoMailboxSelected = errors_New ''No mailbox selected''"

definition ErrMailboxReadOnly :: error where
  "ErrMailboxReadOnly = errors_New ''Mailbox opened in read-only mode''"

text \<open>
  A function returns, panics, or blocks for ever. A method call through a nil interface
  value is a run-time panic in Go; a send on an unbuffered channel that nobody receives
  from any more never completes.
\<close>

datatype 'a exec = Returns 'a | Panics | Blocks

text \<open>
  The dynamic values (\<open>interface{}\<close>) produced by the token reader: a string, a list,
  nil, or a literal.
\<close>

datatype field = FString string | FList "field list" | FNil | FLiteral string

text \<open>
  Modelled from the spec: \<open>common.ConnState\<close>, whose declaration is not among the sources:
  the four connection states.
\<close>

datatype ConnState = NotAuthenticatedState | AuthenticatedState | SelectedState | LogoutState

subsection \<open>Messages, responses\<close>

text \<open>
  \<open>common.SeqSet\<close> is passed through by the handlers unchanged; it is kept in its wire form.
  \<open>common.FlagsOp\<close> is a string type.
\<close>

type_synonym SeqSet = string
type_synonym FlagsOp = string

text \<open>
  Modelled from the spec: the constants of package \<open>common\<close> naming the STORE operations
  (\<open>{+|-|}FLAGS[.SILENT]\<close>); their declarations are not among the sources.
\<close>

definition SetFlags :: FlagsOp where "SetFlags = ''FLAGS''"
definition AddFlags :: FlagsOp where "AddFlags = ''+FLAGS''"
definition RemoveFlags :: FlagsOp where "RemoveFlags = ''-FLAGS''"
definition SilentOp :: string where "SilentOp = ''.SILENT''"

text \<open>
  \<open>common.SearchCriteria\<close>: only the field the handlers write is kept; every other field
  of the struct is left at its zero value by \<open>&common.SearchCriteria{Deleted: true}\<close>.
\<close>

record SearchCriteria =
  Deleted :: bool

text \<open>\<open>common.Message\<close>: the attributes that the items FLAGS and UID populate.\<close>

record Message =
  Message_Items :: "string list"
  SeqNum :: "32 word"
  Uid :: "32 word"
  Flags :: "string list"

datatype StatusRespType = OK | NO | BAD | PREAUTH | BYE

record StatusResp =
  StatusResp_Tag :: string
  Type :: StatusRespType
  Info :: string

text \<open>\<open>common.MailboxStatus\<close>, as far as the fan-out needs it.\<close>

record MailboxStatus =
  MailboxStatus_Name :: string
  ReadOnly :: bool

text \<open>
  The values that implement \<open>common.WriterTo\<close>. A streamed response holds the sequence of
  values sent on its channel until the channel is closed, in the order they are sent.
\<close>

datatype response =
    responses_Expunge (SeqNums: "32 word list")
  | responses_Search (Ids: "32 word list")
  | responses_Fetch (Messages: "Message list")
  | responses_Select MailboxStatus
  | common_StatusResp StatusResp

subsection \<open>Backend interfaces\<close>

text \<open>
  \<open>backend.Mailbox\<close> is an interface implemented outside the engine. A mailbox value is the
  record of what its methods return. Each handler calls each method at most once, so a
  backend with state of its own is covered by the choice of these results.
  \<open>ListMessages\<close> yields the messages it sends on the output channel and its error; a
  call that does not return is not represented.
\<close>

record backend_Mailbox =
  Mailbox_Name :: string
  Check :: "error option"
  Expunge :: "error option"
  SearchMessages :: "bool \<Rightarrow> SearchCriteria \<Rightarrow> error + 32 word list"
  ListMessages :: "bool \<Rightarrow> SeqSet \<Rightarrow> string list \<Rightarrow> Message list \<times> error option"
  UpdateMessagesFlags :: "bool \<Rightarrow> SeqSet \<Rightarrow> FlagsOp \<Rightarrow> string list \<Rightarrow> error option"
  CopyMessages :: "bool \<Rightarrow> SeqSet \<Rightarrow> string \<Rightarrow> error option"

record backend_User =
  Username :: string

text \<open>
  \<open>*backend.Updates\<close>: the handlers only test it against nil, so the four channels it
  holds are not represented.
\<close>

datatype backend_Updates = backend_Updates

subsection \<open>Connections\<close>

text \<open>
  The fields of \<open>Conn\<close> that the handlers and the fan-out read or write. \<open>Mailbox\<close> and
  \<open>User\<close> are interface values, \<open>None\<close> when nil. The method \<open>WriteRes\<close> is declared
  outside the sources; what it does with a response is carried by two fields: the error it
  returns (\<open>WriteRes\<close>) and, for a response that is streamed over a channel, the number
  of values it receives from the channel before it returns (\<open>WriteRes_receives\<close>; a
  writer that reads until the channel is closed receives every value, one that gives up
  after a failed write receives fewer). Both take the response with the whole stream its
  sender has to send. The back-reference \<open>conn.Server\<close> is passed to the handlers as an
  argument of its own.
\<close>

record Conn =
  State :: ConnState
  User :: "backend_User option"
  Mailbox :: "backend_Mailbox option"
  MailboxReadOnly :: bool
  silent :: bool
  WriteRes :: "response \<Rightarrow> error option"
  WriteRes_receives :: "response \<Rightarrow> nat"

text \<open>The backend methods a handler can call, with their arguments.\<close>

datatype call =
    Call_Check
  | Call_Expunge
  | Call_SearchMessages bool SearchCriteria
  | Call_ListMessages bool SeqSet "string list"
  | Call_UpdateMessagesFlags bool SeqSet FlagsOp "string list"
  | Call_CopyMessages bool SeqSet string

text \<open>
  What a handler does to the outside, in order: a method call on a mailbox, a response
  written with \<open>conn.WriteRes\<close>, bytes written with \<open>conn.Writer.Write\<close>. Each event
  records the connection as it is at that moment.
\<close>

datatype event =
    Invoke Conn backend_Mailbox call
  | Write Conn response
  | Writer_Write Conn string

type_synonym hres = "Conn \<times> event list \<times> error option exec"

subsection \<open>Handlers and server\<close>

text \<open>
  A value of the interface \<open>Handler\<close>: the handler's own data \<open>this\<close> (of some type
  \<open>'h\<close>) and its two methods. \<open>Parse\<close> stores the arguments in the handler and may
  fail; \<open>Handle\<close> runs the parsed command on a connection.
\<close>

record 'h Handler =
  this :: 'h
  Parse :: "'h \<Rightarrow> field list \<Rightarrow> error option \<times> 'h"
  Handle :: "'h \<Rightarrow> Conn \<Rightarrow> hres"

text \<open>The method calls \<open>hdlr.Parse(args)\<close> and \<open>hdlr.Handle(conn)\<close>.\<close>

definition call_Parse :: "'h Handler \<Rightarrow> field list \<Rightarrow> error option \<times> 'h Handler" where
  "call_Parse hdlr args =
     (case Parse hdlr (this hdlr) args of (err, h) \<Rightarrow> (err, hdlr\<lparr>this := h\<rparr>))"

definition call_Handle :: "'h Handler \<Rightarrow> Conn \<Rightarrow> hres" where
  "call_Handle hdlr conn = Handle hdlr (this hdlr) conn"

type_synonym 'h HandlerFactory = "unit \<Rightarrow> 'h Handler"

record 'h Server =
  conns :: "Conn list"
  commands :: "string \<rightharpoonup> 'h HandlerFactory"
  Updates :: "backend_Updates option"

section \<open>Handlers of the Selected state\<close>

definition Check_Handle :: "Conn \<Rightarrow> hres" where
  "Check_Handle conn =
     (case Mailbox conn of
        None \<Rightarrow> (conn, [], Returns (Some ErrNoMailboxSelected))
      | Some mbox \<Rightarrow>
          if MailboxReadOnly conn then (conn, [], Returns (Some ErrMailboxReadOnly))
          else (conn, [Invoke conn mbox Call_Check], Returns (Check mbox)))"

text \<open>
  \<open>Close.Handle\<close> assigns nil to \<open>conn.Mailbox\<close> and then calls \<open>conn.Mailbox.Expunge()\<close>,
  reading the field again.
\<close>

definition Close_Handle :: "Conn \<Rightarrow> hres" where
  "Close_Handle conn =
     (if Mailbox conn = None then (conn, [], Returns (Some ErrNoMailboxSelected))
      else
        let conn1 = conn\<lparr>Mailbox := None\<rparr>;
            conn2 = conn1\<lparr>MailboxReadOnly := False\<rparr>
        in (case Mailbox conn2 of
              None \<Rightarrow> (conn2, [], Panics)
            | Some mbox \<Rightarrow>
                (case Expunge mbox of
                   Some err \<Rightarrow> (conn2, [Invoke conn2 mbox Call_Expunge], Returns (Some err))
                 | None \<Rightarrow> (conn2, [Invoke conn2 mbox Call_Expunge], Returns None))))"

text \<open>
  The loop \<open>for i := len(seqnums) - 1; i >= 0; i-- { ch <- seqnums[i] }\<close> of
  \<open>Expunge.Handle\<close>: the values sent on \<open>ch\<close>, in order. \<open>i\<close> is a Go \<open>int\<close>.
\<close>

function Expunge_loop :: "32 word list \<Rightarrow> int \<Rightarrow> 32 word list" where
  "Expunge_loop seqnums i =
     (if i \<ge> 0 then seqnums ! nat i # Expunge_loop seqnums (i - 1) else [])"
  by pat_completeness auto
termination
  by (relation "measure (\<lambda>(seqnums, i). nat (i + 1))") auto

declare Expunge_loop.simps [simp del]

text \<open>
  \<open>Expunge.Handle\<close>. The writer of the EXPUNGE response runs in a goroutine of its own
  and receives the sequence numbers over the unbuffered channel \<open>ch\<close>; its result comes
  back over \<open>done\<close>. When the writer returns after receiving \<open>n\<close> values and the loop
  has more to send, the next send never completes and the handler blocks; otherwise the
  loop ends, \<open>ch\<close> is closed and the handler returns what the writer returned.
\<close>

definition Expunge_Handle :: "'h Server \<Rightarrow> Conn \<Rightarrow> hres" where
  "Expunge_Handle srv conn =
     (case Mailbox conn of
        None \<Rightarrow> (conn, [], Returns (Some ErrNoMailboxSelected))
      | Some mbox \<Rightarrow>
          if MailboxReadOnly conn then (conn, [], Returns (Some ErrMailboxReadOnly))
          else
            let criteria = \<lparr>Deleted = True\<rparr>;
                (found, ev1) =
                  (if Updates srv = None
                   then (SearchMessages mbox False criteria,
                         [Invoke conn mbox (Call_SearchMessages False criteria)])
                   else (Inr [], []))
            in (case found of
                  Inl err \<Rightarrow> (conn, ev1, Returns (Some err))
                | Inr seqnums \<Rightarrow>
                    let ev2 = ev1 @ [Invoke conn mbox Call_Expunge]
                    in (case Expunge mbox of
                          Some err \<Rightarrow> (conn, ev2, Returns (Some err))
                        | None \<Rightarrow>
                            if Updates srv = None then
                              let stream = Expunge_loop seqnums (int (length seqnums) - 1);
                                  res = responses_Expunge stream;
                                  n = WriteRes_receives conn res
                              in if n < length stream
                                 then (conn,
                                       ev2 @ [Write conn (responses_Expunge (take n stream))],
                                       Blocks)
                                 else
                                   (case WriteRes conn res of
                                      Some err \<Rightarrow>
                                        (conn, ev2 @ [Write conn res], Returns (Some err))
                                    | None \<Rightarrow> (conn, ev2 @ [Write conn res], Returns None))
                            else (conn, ev2, Returns None))))"

record Search =
  Criteria :: SearchCriteria

definition Search_handle :: "bool \<Rightarrow> Search \<Rightarrow> Conn \<Rightarrow> hres" where
  "Search_handle uid cmd conn =
     (case Mailbox conn of
        None \<Rightarrow> (conn, [], Returns (Some ErrNoMailboxSelected))
      | Some mbox \<Rightarrow>
          (case SearchMessages mbox uid (Criteria cmd) of
             Inl err \<Rightarrow>
               (conn, [Invoke conn mbox (Call_SearchMessages uid (Criteria cmd))],
                Returns (Some err))
           | Inr ids \<Rightarrow>
               let res = responses_Search ids
               in (conn,
                   [Invoke conn mbox (Call_SearchMessages uid (Criteria cmd)), Write conn res],
                   Returns (WriteRes conn res))))"

definition Search_Handle :: "Search \<Rightarrow> Conn \<Rightarrow> hres" where
  "Search_Handle cmd conn = Search_handle False cmd conn"

definition Search_UidHandle :: "Search \<Rightarrow> Conn \<Rightarrow> hres" where
  "Search_UidHandle cmd conn = Search_handle True cmd conn"

record Fetch =
  Fetch_SeqSet :: SeqSet
  Items :: "string list"

text \<open>
  \<open>Fetch.handle\<close> starts the writer of the FETCH response, which receives the messages
  that \<open>ListMessages\<close> sends. When \<open>ListMessages\<close> fails the handler returns its error
  without waiting for the writer.
\<close>

definition Fetch_handle :: "bool \<Rightarrow> Fetch \<Rightarrow> Conn \<Rightarrow> hres" where
  "Fetch_handle uid cmd conn =
     (case Mailbox conn of
        None \<Rightarrow> (conn, [], Returns (Some ErrNoMailboxSelected))
      | Some mbox \<Rightarrow>
          (case ListMessages mbox uid (Fetch_SeqSet cmd) (Items cmd) of
             (msgs, err) \<Rightarrow>
               let res = responses_Fetch msgs;
                   evs = [Invoke conn mbox (Call_ListMessages uid (Fetch_SeqSet cmd) (Items cmd)),
                          Write conn res]
               in (case err of
                     Some e \<Rightarrow> (conn, evs, Returns (Some e))
                   | None \<Rightarrow> (conn, evs, Returns (WriteRes conn res)))))"

definition Fetch_Handle :: "Fetch \<Rightarrow> Conn \<Rightarrow> hres" where
  "Fetch_Handle cmd conn = Fetch_handle False cmd conn"

text \<open>The loop of \<open>Fetch.UidHandle\<close> that looks for the item \<open>UID\<close>.\<close>

fun hasUid :: "string list \<Rightarrow> bool" where
  "hasUid [] = False"
| "hasUid (item # items) = (if item = ''UID'' then True else hasUid items)"

text \<open>
  \<open>Fetch.UidHandle\<close> changes the handler's own \<open>Items\<close>; the handler is returned with
  the result.
\<close>

definition Fetch_UidHandle :: "Fetch \<Rightarrow> Conn \<Rightarrow> Fetch \<times> hres" where
  "Fetch_UidHandle cmd conn =
     (let cmd1 = (if \<not> hasUid (Items cmd) then cmd\<lparr>Items := Items cmd @ [''UID'']\<rparr> else cmd)
      in (cmd1, Fetch_handle True cmd1 conn))"

text \<open>\<open>strings.HasSuffix\<close> and \<open>strings.TrimSuffix\<close> of the Go library.\<close>

definition HasSuffix :: "string \<Rightarrow> string \<Rightarrow> bool" where
  "HasSuffix s suffix =
     (length s \<ge> length suffix \<and> drop (length s - length suffix) s = suffix)"

definition TrimSuffix :: "string \<Rightarrow> string \<Rightarrow> string" where
  "TrimSuffix s suffix =
     (if HasSuffix s suffix then take (length s - length suffix) s else s)"

record Store =
  Store_SeqSet :: SeqSet
  Item :: string
  Value :: field

text \<open>
  \<open>Store.handle\<close>. \<open>common.ParseStringList\<close> is not among the sources and is a parameter.
\<close>

definition Store_handle ::
  "(field list \<Rightarrow> error + string list) \<Rightarrow> 'h Server \<Rightarrow> bool \<Rightarrow> Store \<Rightarrow> Conn \<Rightarrow> hres" where
  "Store_handle ParseStringList srv uid cmd conn =
     (case Mailbox conn of
        None \<Rightarrow> (conn, [], Returns (Some ErrNoMailboxSelected))
      | Some mbox \<Rightarrow>
          if MailboxReadOnly conn then (conn, [], Returns (Some ErrMailboxReadOnly))
          else
            let itemStr = Item cmd;
                is_silent = HasSuffix itemStr SilentOp;
                itemStr = (if is_silent then TrimSuffix itemStr SilentOp else itemStr);
                item = itemStr
            in
              if item \<noteq> SetFlags \<and> item \<noteq> AddFlags \<and> item \<noteq> RemoveFlags
              then (conn, [], Returns (Some (errors_New ''Unsupported STORE operation'')))
              else
                (case Value cmd of
                   FList flagsList \<Rightarrow>
                     (case ParseStringList flagsList of
                        Inl err \<Rightarrow> (conn, [], Returns (Some err))
                      | Inr flags \<Rightarrow>
                          let conn1 = conn\<lparr>silent := is_silent\<rparr>;
                              err = UpdateMessagesFlags mbox uid (Store_SeqSet cmd) item flags;
                              ev1 = [Invoke conn1 mbox
                                       (Call_UpdateMessagesFlags uid (Store_SeqSet cmd) item flags)];
                              conn2 = conn1\<lparr>silent := False\<rparr>
                          in (case err of
                                Some e \<Rightarrow> (conn2, ev1, Returns (Some e))
                              | None \<Rightarrow>
                                  if Updates srv = None \<and> \<not> is_silent then
                                    let inner = \<lparr>Fetch_SeqSet = Store_SeqSet cmd,
                                                 Items = [''FLAGS'']\<rparr>;
                                        inner = (if uid
                                                 then inner\<lparr>Items := Items inner @ [''UID'']\<rparr>
                                                 else inner)
                                    in (case Fetch_handle uid inner conn2 of
                                          (conn3, ev2, Returns (Some e)) \<Rightarrow>
                                            (conn3, ev1 @ ev2, Returns (Some e))
                                        | (conn3, ev2, Returns None) \<Rightarrow>
                                            (conn3, ev1 @ ev2, Returns None)
                                        | (conn3, ev2, Panics) \<Rightarrow> (conn3, ev1 @ ev2, Panics)
                                        | (conn3, ev2, Blocks) \<Rightarrow> (conn3, ev1 @ ev2, Blocks))
                                  else (conn2, ev1, Returns None)))
                 | _ \<Rightarrow> (conn, [], Returns (Some (errors_New ''Flags must be a list'')))))"

definition Store_Handle ::
  "(field list \<Rightarrow> error + string list) \<Rightarrow> 'h Server \<Rightarrow> Store \<Rightarrow> Conn \<Rightarrow> hres" where
  "Store_Handle ParseStringList srv cmd conn = Store_handle ParseStringList srv False cmd conn"

definition Store_UidHandle ::
  "(field list \<Rightarrow> error + string list) \<Rightarrow> 'h Server \<Rightarrow> Store \<Rightarrow> Conn \<Rightarrow> hres" where
  "Store_UidHandle ParseStringList srv cmd conn = Store_handle ParseStringList srv True cmd conn"

record Copy =
  Copy_SeqSet :: SeqSet
  Copy_Mailbox :: string

definition Copy_handle :: "bool \<Rightarrow> Copy \<Rightarrow> Conn \<Rightarrow> hres" where
  "Copy_handle uid cmd conn =
     (case Mailbox conn of
        None \<Rightarrow> (conn, [], Returns (Some ErrNoMailboxSelected))
      | Some mbox \<Rightarrow>
          (conn, [Invoke conn mbox (Call_CopyMessages uid (Copy_SeqSet cmd) (Copy_Mailbox cmd))],
           Returns (CopyMessages mbox uid (Copy_SeqSet cmd) (Copy_Mailbox cmd))))"

definition Copy_Handle :: "Copy \<Rightarrow> Conn \<Rightarrow> hres" where
  "Copy_Handle cmd conn = Copy_handle False cmd conn"

definition Copy_UidHandle :: "Copy \<Rightarrow> Conn \<Rightarrow> hres" where
  "Copy_UidHandle cmd conn = Copy_handle True cmd conn"

section \<open>Server dispatch\<close>

record Command =
  Tag :: string
  Name :: string
  Arguments :: "field list"

text \<open>
  \<open>Server.getCommandHandler\<close> returns the pair \<open>(hdlr, err)\<close>; \<open>hdlr\<close> is nil (\<open>None\<close>)
  when the name is not registered.
\<close>

definition getCommandHandler ::
  "'h Server \<Rightarrow> Command \<Rightarrow> 'h Handler option \<times> error option" where
  "getCommandHandler s cmd =
     (case commands s (Name cmd) of
        None \<Rightarrow> (None, Some (errors_New ''Unknown command''))
      | Some newHandler \<Rightarrow>
          let hdlr = newHandler ()
          in (case call_Parse hdlr (Arguments cmd) of (err, hdlr') \<Rightarrow> (Some hdlr', err)))"

text \<open>
  \<open>Server.handleCommand\<close> returns the pair \<open>(res, err)\<close>, with the connection as the
  handler leaves it and the events of the handler. A panic of the handler is not recovered,
  and a handler that blocks never gives control back.
\<close>

definition handleCommand ::
  "'h Server \<Rightarrow> Command \<Rightarrow> Conn \<Rightarrow> Conn \<times> event list \<times> (response option \<times> error option) exec"
  where
  "handleCommand s cmd conn =
     (case getCommandHandler s cmd of
        (hdlr, Some err) \<Rightarrow> (conn, [], Returns (None, Some err))
      | (None, None) \<Rightarrow> (conn, [], Panics)
      | (Some hdlr, None) \<Rightarrow>
          (case call_Handle hdlr conn of
             (conn', evs, Panics) \<Rightarrow> (conn', evs, Panics)
           | (conn', evs, Blocks) \<Rightarrow> (conn', evs, Blocks)
           | (conn', evs, Returns (Some err)) \<Rightarrow>
               (conn', evs,
                Returns (Some (common_StatusResp
                   \<lparr>StatusResp_Tag = Tag cmd, Type = NO, Info = Error err\<rparr>), None))
           | (conn', evs, Returns None) \<Rightarrow>
               (conn', evs,
                Returns (Some (common_StatusResp
                   \<lparr>StatusResp_Tag = Tag cmd, Type = OK, Info = Name cmd @ '' completed''\<rparr>),
                   None))))"

text \<open>
  One turn of the loop of \<open>Server.handleConn\<close>, from the result of \<open>cmd.Parse(fields)\<close>
  (\<open>Inl\<close> its error, \<open>Inr\<close> the parsed command) to the call of \<open>conn.WriteRes(res)\<close>,
  whose error is only logged. The turn yields the response it writes.
\<close>

definition handleConn_turn ::
  "'h Server \<Rightarrow> Conn \<Rightarrow> error + Command \<Rightarrow> Conn \<times> event list \<times> response exec" where
  "handleConn_turn s conn parsed =
     (case parsed of
        Inl err \<Rightarrow>
          let res = common_StatusResp \<lparr>StatusResp_Tag = ''*'', Type = BAD, Info = Error err\<rparr>
          in (conn, [Write conn res], Returns res)
      | Inr cmd \<Rightarrow>
          (case handleCommand s cmd conn of
             (conn', evs, Panics) \<Rightarrow> (conn', evs, Panics)
           | (conn', evs, Blocks) \<Rightarrow> (conn', evs, Blocks)
           | (conn', evs, Returns (res, Some err)) \<Rightarrow>
               let res = common_StatusResp
                           \<lparr>StatusResp_Tag = Tag cmd, Type = BAD, Info = Error err\<rparr>
               in (conn', evs @ [Write conn' res], Returns res)
           | (conn', evs, Returns (None, None)) \<Rightarrow> (conn', evs, Panics)
           | (conn', evs, Returns (Some res, None)) \<Rightarrow>
               (conn', evs @ [Write conn' res], Returns res)))"

section \<open>Update fan-out\<close>







section \<open>Client\<close>

text \<open>
  Modelled from the spec: \<open>StatusResp.Err\<close>, which is not among the sources: a failure when
  the type is NO or BAD. The spec leaves the error's text open; it is the status's \<open>Info\<close>
  here.
\<close>

definition Err :: "StatusResp \<Rightarrow> error option" where
  "Err r = (if Type r = NO \<or> Type r = BAD then Some (errors_New (Info r)) else None)"

record Client =
  Client_State :: ConnState

datatype commands = commands_Capability | commands_Noop | commands_Logout

text \<open>
  \<open>Client.Logout\<close>. The method \<open>c.execute\<close> is not among the sources and is a parameter: it
  yields the client as it leaves it, the final status (\<open>None\<close> when nil) and its error.
  The commands executed are returned with the result.
\<close>

definition Logout ::
  "(Client \<Rightarrow> commands \<Rightarrow> Client \<times> StatusResp option \<times> error option) \<Rightarrow> Client
     \<Rightarrow> Client \<times> commands list \<times> error option" where
  "Logout execute c =
     (if Client_State c = LogoutState then (c, [], Some (errors_New ''Already logged out''))
      else
        let cmd = commands_Logout
        in (case execute c cmd of
              (c', status, Some err) \<Rightarrow> (c', [cmd], Some err)
            | (c', None, None) \<Rightarrow> (c', [cmd], None)
            | (c', Some status, None) \<Rightarrow> (c', [cmd], Err status)))"

section \<open>Stated properties and example values\<close>

text \<open>
  Invariant (i) of the data model: a connection in Selected state has a non-nil mailbox
  handle, and in any other state the handle is nil.
\<close>

definition conn_inv :: "Conn \<Rightarrow> bool" where
  "conn_inv conn = ((State conn = SelectedState) = (Mailbox conn \<noteq> None))"

text \<open>The responses written with \<open>conn.WriteRes\<close> among a list of events, in order.\<close>

fun written :: "event list \<Rightarrow> response list" where
  "written [] = []"
| "written (Write conn res # evs) = res # written evs"
| "written (ev # evs) = written evs"


text \<open>
  A mailbox INBOX whose methods succeed: a search finds the sequence numbers 2 and 5, and
  listing yields one message that carries the requested items.
\<close>

definition example_inbox :: backend_Mailbox where
  "example_inbox =
     \<lparr>Mailbox_Name = ''INBOX'', Check = None, Expunge = None,
      SearchMessages = (\<lambda>uid criteria. Inr [2, 5]),
      ListMessages = (\<lambda>uid seqset items.
         ([\<lparr>Message_Items = items, SeqNum = 1, Uid = 10, Flags = [''Seen'']\<rparr>], None)),
      UpdateMessagesFlags = (\<lambda>uid seqset item flags. None),
      CopyMessages = (\<lambda>uid seqset dest. None)\<rparr>"

text \<open>
  A connection of user alice that has selected INBOX read-write. Its writer succeeds and
  reads a streamed response until the channel is closed.
\<close>

definition example_conn :: Conn where
  "example_conn =
     \<lparr>State = SelectedState, User = Some \<lparr>Username = ''alice''\<rparr>,
      Mailbox = Some example_inbox, MailboxReadOnly = False, silent = False,
      WriteRes = (\<lambda>res. None),
      WriteRes_receives = (\<lambda>res. case res of
         responses_Expunge seqnums \<Rightarrow> length seqnums
       | responses_Fetch msgs \<Rightarrow> length msgs
       | _ \<Rightarrow> 0)\<rparr>"

text \<open>
  The same connection with a broken socket: its writer fails and returns after it has
  received one value of a streamed response.
\<close>

definition example_conn_broken :: Conn where
  "example_conn_broken =
     example_conn\<lparr>WriteRes := (\<lambda>res. Some (errors_New ''broken pipe'')),
                  WriteRes_receives := (\<lambda>res. 1)\<rparr>"

text \<open>A server with no registered command, without and with a backend update stream.\<close>

definition example_server :: "unit Server" where
  "example_server = \<lparr>conns = [example_conn], commands = Map.empty, Updates = None\<rparr>"

definition example_server_updates :: "unit Server" where
  "example_server_updates = example_server\<lparr>Updates := Some backend_Updates\<rparr>"

text \<open>The same connection before a mailbox is selected, and with INBOX opened read-only.\<close>

definition example_conn_unselected :: Conn where
  "example_conn_unselected = example_conn\<lparr>State := AuthenticatedState, Mailbox := None\<rparr>"

definition example_conn_readonly :: Conn where
  "example_conn_readonly = example_conn\<lparr>MailboxReadOnly := True\<rparr>"

text \<open>A STORE command \<open>1 +FLAGS (Seen)\<close> and a parser of its flag list.\<close>

definition example_store :: Store where
  "example_store =
     \<lparr>Store_SeqSet = ''1'', Item = ''+FLAGS'', Value = FList [FString ''Seen'']\<rparr>"

definition example_store_silent :: Store where
  "example_store_silent = example_store\<lparr>Item := ''+FLAGS.SILENT''\<rparr>"

fun example_ParseStringList :: "field list \<Rightarrow> error + string list" where
  "example_ParseStringList [] = Inr []"
| "example_ParseStringList (FString str # rest) =
     (case example_ParseStringList rest of
        Inl err \<Rightarrow> Inl err
      | Inr strs \<Rightarrow> Inr (str # strs))"
| "example_ParseStringList (f # rest) = Inl (errors_New ''String list contains a non-string'')"

text \<open>
  Three handlers: one that accepts any arguments and succeeds, one whose \<open>Handle\<close> fails,
  one whose \<open>Parse\<close> fails; and a server that registers them.
\<close>

definition example_noop :: "unit Handler" where
  "example_noop =
     \<lparr>this = (), Parse = (\<lambda>h args. (None, h)), Handle = (\<lambda>h conn. (conn, [], Returns None))\<rparr>"

definition example_refusing :: "unit Handler" where
  "example_refusing =
     example_noop\<lparr>Handle := (\<lambda>h conn. (conn, [], Returns (Some (errors_New ''Not allowed''))))\<rparr>"

definition example_strict :: "unit Handler" where
  "example_strict =
     example_noop\<lparr>Parse := (\<lambda>h args. (Some (errors_New ''Not enough arguments''), h))\<rparr>"

definition example_dispatcher :: "unit Server" where
  "example_dispatcher =
     example_server\<lparr>commands :=
       [''NOOP'' \<mapsto> (\<lambda>u. example_noop), ''CREATE'' \<mapsto> (\<lambda>u. example_refusing),
        ''LOGIN'' \<mapsto> (\<lambda>u. example_strict)]\<rparr>"



text \<open>An \<open>execute\<close> that receives a tagged OK, and one that ends without a status.\<close>

definition example_execute ::
  "Client \<Rightarrow> commands \<Rightarrow> Client \<times> StatusResp option \<times> error option" where
  "example_execute c cmd =
     (c\<lparr>Client_State := LogoutState\<rparr>,
      Some \<lparr>StatusResp_Tag = ''a1'', Type = OK, Info = ''LOGOUT completed''\<rparr>, None)"

definition example_execute_nil ::
  "Client \<Rightarrow> commands \<Rightarrow> Client \<times> StatusResp option \<times> error option" where
  "example_execute_nil c cmd = (c\<lparr>Client_State := LogoutState\<rparr>, None, None)"

section \<open>CLOSE\<close>

text \<open>
  C1. The claim: on a connection with a selected mailbox, CLOSE first calls Expunge on
  that mailbox and only then clears the handle, so that no nil handle is dereferenced.
  The handler clears the handle first: on the example connection, which has INBOX
  selected, it calls no backend method at all and panics on the nil handle.
\<close>

theorem Close_Handle_selected_panics:
  "Close_Handle example_conn =
     (example_conn\<lparr>Mailbox := None, MailboxReadOnly := False\<rparr>, [], Panics)"
  by (simp add: Close_Handle_def example_conn_def)

text \<open>The same holds for every connection with a mailbox selected.\<close>

lemma Close_Handle_selected:
  "Mailbox conn \<noteq> None \<Longrightarrow>
   Close_Handle conn = (conn\<lparr>Mailbox := None, MailboxReadOnly := False\<rparr>, [], Panics)"
  by (simp add: Close_Handle_def)

section \<open>EXPUNGE\<close>

lemma Expunge_loop_take:
  "n \<le> length seqnums \<Longrightarrow> Expunge_loop seqnums (int n - 1) = rev (take n seqnums)"
proof (induction n)
  case 0
  then show ?case by (simp add: Expunge_loop.simps)
next
  case (Suc n)
  then have "Expunge_loop seqnums (int (Suc n) - 1) =
      seqnums ! n # Expunge_loop seqnums (int n - 1)"
    by (subst Expunge_loop.simps) simp
  with Suc show ?case by (simp add: take_Suc_conv_app_nth)
qed

lemma Expunge_loop_rev: "Expunge_loop seqnums (int (length seqnums) - 1) = rev seqnums"
  using Expunge_loop_take [of "length seqnums" seqnums] by simp

section \<open>FETCH and STORE: the paths through the handlers\<close>

lemma Fetch_handle_conn: "fst (Fetch_handle uid cmd conn) = conn"
  by (simp add: Fetch_handle_def Let_def split: option.splits prod.splits)

lemma Store_handle_none:
  "Mailbox conn = None \<Longrightarrow>
   Store_handle P srv uid cmd conn = (conn, [], Returns (Some ErrNoMailboxSelected))"
  by (simp add: Store_handle_def)

lemma Store_handle_ro:
  "Mailbox conn = Some mbox \<Longrightarrow> MailboxReadOnly conn \<Longrightarrow>
   Store_handle P srv uid cmd conn = (conn, [], Returns (Some ErrMailboxReadOnly))"
  by (simp add: Store_handle_def)

lemma TrimSuffix_if:
  "(if HasSuffix s suffix then TrimSuffix s suffix else s) = TrimSuffix s suffix"
  by (simp add: TrimSuffix_def)

lemma Store_handle_unsupported:
  assumes "Mailbox conn = Some mbox" "\<not> MailboxReadOnly conn"
    and "TrimSuffix (Item cmd) SilentOp \<notin> {SetFlags, AddFlags, RemoveFlags}"
  shows "Store_handle P srv uid cmd conn =
           (conn, [], Returns (Some (errors_New ''Unsupported STORE operation'')))"
proof -
  have v: "(TrimSuffix (Item cmd) SilentOp \<noteq> SetFlags \<and>
            TrimSuffix (Item cmd) SilentOp \<noteq> AddFlags \<and>
            TrimSuffix (Item cmd) SilentOp \<noteq> RemoveFlags) = True"
    using assms(3) by auto
  show ?thesis
    unfolding Store_handle_def Let_def
    by (simp only: assms(1,2) TrimSuffix_if option.case if_False v if_True)
qed

lemma Store_handle_not_list:
  assumes "Mailbox conn = Some mbox" "\<not> MailboxReadOnly conn"
    and "TrimSuffix (Item cmd) SilentOp \<in> {SetFlags, AddFlags, RemoveFlags}"
    and "\<forall>flagsList. Value cmd \<noteq> FList flagsList"
  shows "Store_handle P srv uid cmd conn =
           (conn, [], Returns (Some (errors_New ''Flags must be a list'')))"
proof -
  have v: "\<not> (TrimSuffix (Item cmd) SilentOp \<noteq> SetFlags \<and>
              TrimSuffix (Item cmd) SilentOp \<noteq> AddFlags \<and>
              TrimSuffix (Item cmd) SilentOp \<noteq> RemoveFlags)"
    using assms(3) by auto
  show ?thesis
    unfolding Store_handle_def Let_def
    using assms(4)
    by (cases "Value cmd")
       (simp_all only: assms(1,2) TrimSuffix_if option.case field.case if_False v if_not_P,
        simp_all)
qed

lemma Store_handle_bad_flags:
  assumes "Mailbox conn = Some mbox" "\<not> MailboxReadOnly conn"
    and "TrimSuffix (Item cmd) SilentOp \<in> {SetFlags, AddFlags, RemoveFlags}"
    and "Value cmd = FList flagsList" "P flagsList = Inl err"
  shows "Store_handle P srv uid cmd conn = (conn, [], Returns (Some err))"
proof -
  have v: "\<not> (TrimSuffix (Item cmd) SilentOp \<noteq> SetFlags \<and>
              TrimSuffix (Item cmd) SilentOp \<noteq> AddFlags \<and>
              TrimSuffix (Item cmd) SilentOp \<noteq> RemoveFlags)"
    using assms(3) by auto
  show ?thesis
    unfolding Store_handle_def Let_def
    by (simp only: assms(1,2,4,5) TrimSuffix_if option.case field.case sum.case if_False v
          if_not_P)
qed

lemma Store_handle_reached:
  assumes "Mailbox conn = Some mbox" "\<not> MailboxReadOnly conn"
    and "TrimSuffix (Item cmd) SilentOp \<in> {SetFlags, AddFlags, RemoveFlags}"
    and "Value cmd = FList flagsList" "P flagsList = Inr flags"
  shows "Store_handle P srv uid cmd conn =
     (let is_silent = HasSuffix (Item cmd) SilentOp;
          item = TrimSuffix (Item cmd) SilentOp;
          conn1 = conn\<lparr>silent := is_silent\<rparr>;
          ev1 = [Invoke conn1 mbox (Call_UpdateMessagesFlags uid (Store_SeqSet cmd) item flags)];
          conn2 = conn\<lparr>silent := False\<rparr>
      in (case UpdateMessagesFlags mbox uid (Store_SeqSet cmd) item flags of
            Some e \<Rightarrow> (conn2, ev1, Returns (Some e))
          | None \<Rightarrow>
              if Updates srv = None \<and> \<not> is_silent then
                (case Fetch_handle uid
                        \<lparr>Fetch_SeqSet = Store_SeqSet cmd,
                         Items = (if uid then [''FLAGS'', ''UID''] else [''FLAGS''])\<rparr> conn2 of
                   (conn3, ev2, out) \<Rightarrow> (conn3, ev1 @ ev2, out))
              else (conn2, ev1, Returns None)))"
proof -
  have v: "\<not> (TrimSuffix (Item cmd) SilentOp \<noteq> SetFlags \<and>
              TrimSuffix (Item cmd) SilentOp \<noteq> AddFlags \<and>
              TrimSuffix (Item cmd) SilentOp \<noteq> RemoveFlags)"
    using assms(3) by auto
  show ?thesis
    unfolding Store_handle_def Let_def
    apply (simp only: assms(1,2,4,5) TrimSuffix_if option.case field.case sum.case if_False v
        if_not_P)
    apply (cases "UpdateMessagesFlags mbox uid (Store_SeqSet cmd)
                    (TrimSuffix (Item cmd) SilentOp) flags")
     apply (simp_all split: prod.splits exec.splits option.splits)
    done
qed

lemma Store_handle_conn:
  "fst (Store_handle P srv uid cmd conn) = conn \<or>
   fst (Store_handle P srv uid cmd conn) = conn\<lparr>silent := False\<rparr>"
proof (cases "Mailbox conn")
  case None
  then show ?thesis by (simp add: Store_handle_none)
next
  case (Some mbox)
  show ?thesis
  proof (cases "MailboxReadOnly conn")
    case True
    with Some show ?thesis by (simp add: Store_handle_ro)
  next
    case ro: False
    show ?thesis
    proof (cases "TrimSuffix (Item cmd) SilentOp \<in> {SetFlags, AddFlags, RemoveFlags}")
      case False
      with Some ro show ?thesis by (simp only: Store_handle_unsupported fst_conv simp_thms)
    next
      case op: True
      show ?thesis
      proof (cases "\<exists>flagsList. Value cmd = FList flagsList")
        case False
        then have "\<forall>flagsList. Value cmd \<noteq> FList flagsList" by simp
        with Some ro op show ?thesis by (simp only: Store_handle_not_list fst_conv simp_thms)
      next
        case True
        then obtain flagsList where fl: "Value cmd = FList flagsList" by blast
        show ?thesis
        proof (cases "P flagsList")
          case (Inl err)
          show ?thesis by (simp add: Store_handle_bad_flags [where P = P, OF Some ro op fl Inl])
        next
          case (Inr flags)
          obtain c3 ev2 out where fh: "Fetch_handle uid
              \<lparr>Fetch_SeqSet = Store_SeqSet cmd,
               Items = (if uid then [''FLAGS'', ''UID''] else [''FLAGS''])\<rparr>
              (conn\<lparr>silent := False\<rparr>) = (c3, ev2, out)"
            using prod_cases3 by blast
          have "fst (c3, ev2, out) = conn\<lparr>silent := False\<rparr>"
            unfolding fh [symmetric] by (rule Fetch_handle_conn)
          then have c3: "c3 = conn\<lparr>silent := False\<rparr>" by simp
          show ?thesis
            unfolding Store_handle_reached [where P = P, OF Some ro op fl Inr] Let_def fh
            using c3 by (simp split: option.splits)
        qed
      qed
    qed
  qed
qed

section \<open>The connection invariant\<close>

text \<open>
  C2. The claim: every handler preserves the invariant that a connection is in Selected
  state exactly when its mailbox handle is non-nil, and a successful CLOSE leaves the
  connection in Authenticated state with a nil handle. CLOSE on the example connection,
  which satisfies the invariant, does not succeed: it panics on the nil handle, having
  cleared the handle and not assigned the state, and the connection it leaves is in
  Selected state with a nil handle.
\<close>

theorem Close_Handle_breaks_conn_inv:
  "conn_inv example_conn \<and>
   snd (snd (Close_Handle example_conn)) = Panics \<and>
   \<not> conn_inv (fst (Close_Handle example_conn)) \<and>
   State (fst (Close_Handle example_conn)) = SelectedState \<and>
   Mailbox (fst (Close_Handle example_conn)) = None"
  by (simp add: Close_Handle_def example_conn_def conn_inv_def)

text \<open>No run of CLOSE returns without an error, and none assigns the state.\<close>

lemma Close_Handle_never_succeeds:
  "snd (snd (Close_Handle conn)) \<noteq> Returns None \<and>
   State (fst (Close_Handle conn)) = State conn"
  by (simp add: Close_Handle_def)

text \<open>
  The other handlers of the Selected state change neither the state nor the mailbox handle
  of the connection, and so keep the invariant.
\<close>

lemma handlers_keep_state_and_handle:
  "fst (Check_Handle conn) = conn \<and>
   fst (Expunge_Handle srv conn) = conn \<and>
   fst (Search_handle uid sc conn) = conn \<and>
   fst (Fetch_handle uid fc conn) = conn \<and>
   fst (snd (Fetch_UidHandle fc conn)) = conn \<and>
   fst (Copy_handle uid cc conn) = conn \<and>
   State (fst (Store_handle P srv uid stc conn)) = State conn \<and>
   Mailbox (fst (Store_handle P srv uid stc conn)) = Mailbox conn"
proof -
  have 1: "fst (Check_Handle conn) = conn"
    by (simp add: Check_Handle_def split: option.splits)
  have 2: "fst (Expunge_Handle srv conn) = conn"
    by (simp add: Expunge_Handle_def Let_def split: option.splits sum.splits)
  have 3: "fst (Search_handle uid sc conn) = conn"
    by (simp add: Search_handle_def Let_def split: option.splits sum.splits)
  have 4: "fst (Fetch_handle uid fc conn) = conn" by (rule Fetch_handle_conn)
  have 5: "fst (snd (Fetch_UidHandle fc conn)) = conn"
    by (simp add: Fetch_UidHandle_def Let_def Fetch_handle_conn)
  have 6: "fst (Copy_handle uid cc conn) = conn"
    by (simp add: Copy_handle_def split: option.splits)
  have 7: "State (fst (Store_handle P srv uid stc conn)) = State conn \<and>
           Mailbox (fst (Store_handle P srv uid stc conn)) = Mailbox conn"
    using Store_handle_conn [of P srv uid stc conn] by auto
  show ?thesis using 1 2 3 4 5 6 7 by simp
qed

lemma handlers_preserve_conn_inv:
  "conn_inv conn \<Longrightarrow>
     conn_inv (fst (Check_Handle conn)) \<and>
     conn_inv (fst (Expunge_Handle srv conn)) \<and>
     conn_inv (fst (Search_handle uid sc conn)) \<and>
     conn_inv (fst (Fetch_handle uid fc conn)) \<and>
     conn_inv (fst (snd (Fetch_UidHandle fc conn))) \<and>
     conn_inv (fst (Store_handle P srv uid stc conn)) \<and>
     conn_inv (fst (Copy_handle uid cc conn))"
  using handlers_keep_state_and_handle [of conn srv uid sc fc cc P stc]
  by (simp add: conn_inv_def)

section \<open>Preconditions of the Selected state\<close>

text \<open>
  C5. Each of CHECK, CLOSE, EXPUNGE, SEARCH, FETCH, STORE and COPY, on a connection with no
  selected mailbox, returns the error "No mailbox selected", calls no backend method (the
  list of events is empty) and leaves the connection as it was; each of CHECK, EXPUNGE and
  STORE on a mailbox opened read-only returns "Mailbox opened in read-only mode" in the
  same way.
\<close>

theorem selected_state_preconditions:
  "(Mailbox conn = None \<longrightarrow>
      Check_Handle conn = (conn, [], Returns (Some ErrNoMailboxSelected)) \<and>
      Close_Handle conn = (conn, [], Returns (Some ErrNoMailboxSelected)) \<and>
      Expunge_Handle srv conn = (conn, [], Returns (Some ErrNoMailboxSelected)) \<and>
      Search_handle uid sc conn = (conn, [], Returns (Some ErrNoMailboxSelected)) \<and>
      Fetch_handle uid fc conn = (conn, [], Returns (Some ErrNoMailboxSelected)) \<and>
      snd (Fetch_UidHandle fc conn) = (conn, [], Returns (Some ErrNoMailboxSelected)) \<and>
      Store_handle P srv uid stc conn = (conn, [], Returns (Some ErrNoMailboxSelected)) \<and>
      Copy_handle uid cc conn = (conn, [], Returns (Some ErrNoMailboxSelected))) \<and>
   (Mailbox conn \<noteq> None \<and> MailboxReadOnly conn \<longrightarrow>
      Check_Handle conn = (conn, [], Returns (Some ErrMailboxReadOnly)) \<and>
      Expunge_Handle srv conn = (conn, [], Returns (Some ErrMailboxReadOnly)) \<and>
      Store_handle P srv uid stc conn = (conn, [], Returns (Some ErrMailboxReadOnly))) \<and>
   Error ErrNoMailboxSelected = ''No mailbox selected'' \<and>
   Error ErrMailboxReadOnly = ''Mailbox opened in read-only mode''"
proof -
  have a: "Mailbox conn = None \<Longrightarrow>
      Check_Handle conn = (conn, [], Returns (Some ErrNoMailboxSelected)) \<and>
      Close_Handle conn = (conn, [], Returns (Some ErrNoMailboxSelected)) \<and>
      Expunge_Handle srv conn = (conn, [], Returns (Some ErrNoMailboxSelected)) \<and>
      Search_handle uid sc conn = (conn, [], Returns (Some ErrNoMailboxSelected)) \<and>
      Fetch_handle uid fc conn = (conn, [], Returns (Some ErrNoMailboxSelected)) \<and>
      snd (Fetch_UidHandle fc conn) = (conn, [], Returns (Some ErrNoMailboxSelected)) \<and>
      Copy_handle uid cc conn = (conn, [], Returns (Some ErrNoMailboxSelected))"
    by (simp add: Check_Handle_def Close_Handle_def Expunge_Handle_def Search_handle_def
        Fetch_handle_def Fetch_UidHandle_def Copy_handle_def Let_def)
  have b: "Mailbox conn \<noteq> None \<Longrightarrow> MailboxReadOnly conn \<Longrightarrow>
      Check_Handle conn = (conn, [], Returns (Some ErrMailboxReadOnly)) \<and>
      Expunge_Handle srv conn = (conn, [], Returns (Some ErrMailboxReadOnly))"
    by (auto simp: Check_Handle_def Expunge_Handle_def)
  have c: "Mailbox conn \<noteq> None \<Longrightarrow> MailboxReadOnly conn \<Longrightarrow>
      Store_handle P srv uid stc conn = (conn, [], Returns (Some ErrMailboxReadOnly))"
    using Store_handle_ro [of conn _ P srv uid stc] by auto
  show ?thesis
    using a b c Store_handle_none [of conn P srv uid stc]
    by (simp add: ErrNoMailboxSelected_def ErrMailboxReadOnly_def)
qed

theorem selected_state_preconditions_witness:
  "Mailbox example_conn_unselected = None \<and>
   Close_Handle example_conn_unselected =
     (example_conn_unselected, [], Returns (Some (errors_New ''No mailbox selected''))) \<and>
   Fetch_handle True \<lparr>Fetch_SeqSet = ''1:3'', Items = [''FLAGS'']\<rparr> example_conn_unselected =
     (example_conn_unselected, [], Returns (Some (errors_New ''No mailbox selected''))) \<and>
   Mailbox example_conn_readonly \<noteq> None \<and> MailboxReadOnly example_conn_readonly \<and>
   Store_handle example_ParseStringList example_server False example_store example_conn_readonly =
     (example_conn_readonly, [],
      Returns (Some (errors_New ''Mailbox opened in read-only mode'')))"
proof -
  have n: "Mailbox example_conn_unselected = None"
    by (simp add: example_conn_unselected_def)
  have r: "Mailbox example_conn_readonly \<noteq> None \<and> MailboxReadOnly example_conn_readonly"
    by (simp add: example_conn_readonly_def example_conn_def)
  from selected_state_preconditions [where conn = example_conn_unselected and uid = True
      and fc = "\<lparr>Fetch_SeqSet = ''1:3'', Items = [''FLAGS'']\<rparr>"] n
  have a: "Close_Handle example_conn_unselected =
       (example_conn_unselected, [], Returns (Some ErrNoMailboxSelected)) \<and>
     Fetch_handle True \<lparr>Fetch_SeqSet = ''1:3'', Items = [''FLAGS'']\<rparr> example_conn_unselected =
       (example_conn_unselected, [], Returns (Some ErrNoMailboxSelected))"
    by blast
  from selected_state_preconditions [where conn = example_conn_readonly and uid = False
      and P = example_ParseStringList and srv = example_server and stc = example_store] r
  have b: "Store_handle example_ParseStringList example_server False example_store
       example_conn_readonly = (example_conn_readonly, [], Returns (Some ErrMailboxReadOnly))"
    by blast
  from n r a b show ?thesis
    by (simp add: ErrNoMailboxSelected_def ErrMailboxReadOnly_def)
qed

section \<open>EXPUNGE responses\<close>

text \<open>
  C3. On a connection with a mailbox selected read-write, when the server has no update
  stream and the search for deleted messages returns \<open>seqnums\<close> and the backend expunge
  succeeds, the handler calls the search, then the backend expunge, then sends the
  numbers of \<open>seqnums\<close> to the writer of the EXPUNGE response in reverse order, which is
  strictly descending when \<open>seqnums\<close> is strictly ascending. With a writer that receives
  until the channel is closed, the response carries exactly the reverse of \<open>seqnums\<close> and
  the handler returns the writer's result; with a writer that returns after \<open>n\<close> values,
  fewer than there are, the response carries the first \<open>n\<close> of them and the handler
  blocks. When the server has an update stream the handler only calls the backend expunge
  and writes nothing.
\<close>

theorem Expunge_Handle_descending:
  "Mailbox conn = Some mbox \<Longrightarrow> \<not> MailboxReadOnly conn \<Longrightarrow>
   (Updates srv = None \<longrightarrow>
      (\<forall>seqnums. SearchMessages mbox False \<lparr>Deleted = True\<rparr> = Inr seqnums \<and>
                 Expunge mbox = None \<longrightarrow>
         (length seqnums \<le> WriteRes_receives conn (responses_Expunge (rev seqnums)) \<longrightarrow>
            Expunge_Handle srv conn =
              (conn,
               [Invoke conn mbox (Call_SearchMessages False \<lparr>Deleted = True\<rparr>),
                Invoke conn mbox Call_Expunge,
                Write conn (responses_Expunge (rev seqnums))],
               Returns (WriteRes conn (responses_Expunge (rev seqnums))))) \<and>
         (WriteRes_receives conn (responses_Expunge (rev seqnums)) < length seqnums \<longrightarrow>
            Expunge_Handle srv conn =
              (conn,
               [Invoke conn mbox (Call_SearchMessages False \<lparr>Deleted = True\<rparr>),
                Invoke conn mbox Call_Expunge,
                Write conn (responses_Expunge
                  (take (WriteRes_receives conn (responses_Expunge (rev seqnums)))
                     (rev seqnums)))],
               Blocks)) \<and>
         (sorted_wrt (<) seqnums \<longrightarrow> sorted_wrt (>) (rev seqnums)))) \<and>
   (Updates srv \<noteq> None \<longrightarrow>
      fst (snd (Expunge_Handle srv conn)) = [Invoke conn mbox Call_Expunge])"
proof -
  assume m: "Mailbox conn = Some mbox" and r: "\<not> MailboxReadOnly conn"
  have a: "Expunge_Handle srv conn =
      (conn,
       [Invoke conn mbox (Call_SearchMessages False \<lparr>Deleted = True\<rparr>),
        Invoke conn mbox Call_Expunge,
        Write conn (responses_Expunge (rev seqnums))],
       Returns (WriteRes conn (responses_Expunge (rev seqnums))))"
    if "Updates srv = None" "SearchMessages mbox False \<lparr>Deleted = True\<rparr> = Inr seqnums"
      "Expunge mbox = None"
      "length seqnums \<le> WriteRes_receives conn (responses_Expunge (rev seqnums))"
    for seqnums
    using m r that
    by (simp add: Expunge_Handle_def Expunge_loop_rev Let_def split: option.splits)
  have b: "Expunge_Handle srv conn =
      (conn,
       [Invoke conn mbox (Call_SearchMessages False \<lparr>Deleted = True\<rparr>),
        Invoke conn mbox Call_Expunge,
        Write conn (responses_Expunge
          (take (WriteRes_receives conn (responses_Expunge (rev seqnums))) (rev seqnums)))],
       Blocks)"
    if "Updates srv = None" "SearchMessages mbox False \<lparr>Deleted = True\<rparr> = Inr seqnums"
      "Expunge mbox = None"
      "WriteRes_receives conn (responses_Expunge (rev seqnums)) < length seqnums"
    for seqnums
    using m r that
    by (simp add: Expunge_Handle_def Expunge_loop_rev Let_def)
  have c: "sorted_wrt (<) seqnums \<longrightarrow> sorted_wrt (>) (rev seqnums)"
    for seqnums :: "32 word list"
    by (simp add: sorted_wrt_rev)
  have d: "fst (snd (Expunge_Handle srv conn)) = [Invoke conn mbox Call_Expunge]"
    if "Updates srv \<noteq> None"
    using m r that
    by (auto simp: Expunge_Handle_def Let_def split: option.splits)
  from a b c d show ?thesis by blast
qed

theorem Expunge_Handle_descending_witness:
  "Expunge_Handle example_server example_conn =
     (example_conn,
      [Invoke example_conn example_inbox (Call_SearchMessages False \<lparr>Deleted = True\<rparr>),
       Invoke example_conn example_inbox Call_Expunge,
       Write example_conn (responses_Expunge [5, 2])],
      Returns None) \<and>
   sorted_wrt (>) (rev [2, 5 :: 32 word]) \<and>
   Expunge_Handle example_server example_conn_broken =
     (example_conn_broken,
      [Invoke example_conn_broken example_inbox (Call_SearchMessages False \<lparr>Deleted = True\<rparr>),
       Invoke example_conn_broken example_inbox Call_Expunge,
       Write example_conn_broken (responses_Expunge [5])],
      Blocks) \<and>
   fst (snd (Expunge_Handle example_server_updates example_conn)) =
     [Invoke example_conn example_inbox Call_Expunge]"
proof -
  have m: "Mailbox example_conn = Some example_inbox" and r: "\<not> MailboxReadOnly example_conn"
    and mb: "Mailbox example_conn_broken = Some example_inbox"
    and rb: "\<not> MailboxReadOnly example_conn_broken"
    by (simp_all add: example_conn_def example_conn_broken_def)
  have s: "SearchMessages example_inbox False \<lparr>Deleted = True\<rparr> = Inr [2, 5] \<and>
           Expunge example_inbox = None"
    by (simp add: example_inbox_def)
  have o: "sorted_wrt (<) [2, 5 :: 32 word]" by simp
  have u: "Updates example_server = None" "Updates example_server_updates \<noteq> None"
    by (simp_all add: example_server_def example_server_updates_def)
  have w: "length [2, 5 :: 32 word] \<le>
             WriteRes_receives example_conn (responses_Expunge (rev [2, 5]))"
      "WriteRes example_conn (responses_Expunge [5, 2]) = None"
      "WriteRes_receives example_conn_broken (responses_Expunge [5, 2]) = 1"
    by (simp_all add: example_conn_def example_conn_broken_def)
  from Expunge_Handle_descending [OF m r, of example_server] u(1) s o w(1)
  have a: "Expunge_Handle example_server example_conn =
     (example_conn,
      [Invoke example_conn example_inbox (Call_SearchMessages False \<lparr>Deleted = True\<rparr>),
       Invoke example_conn example_inbox Call_Expunge,
       Write example_conn (responses_Expunge (rev [2, 5]))],
      Returns (WriteRes example_conn (responses_Expunge (rev [2, 5])))) \<and>
     sorted_wrt (>) (rev [2, 5 :: 32 word])"
    by blast
  have lt: "WriteRes_receives example_conn_broken (responses_Expunge (rev [2, 5]))
              < length [2, 5 :: 32 word]"
    by (simp add: example_conn_def example_conn_broken_def)
  from Expunge_Handle_descending [OF mb rb, of example_server] u(1) s lt
  have b: "Expunge_Handle example_server example_conn_broken =
     (example_conn_broken,
      [Invoke example_conn_broken example_inbox (Call_SearchMessages False \<lparr>Deleted = True\<rparr>),
       Invoke example_conn_broken example_inbox Call_Expunge,
       Write example_conn_broken (responses_Expunge
         (take (WriteRes_receives example_conn_broken (responses_Expunge (rev [2, 5])))
            (rev [2, 5])))],
      Blocks)"
    by blast
  from Expunge_Handle_descending [OF m r, of example_server_updates] u(2)
  have c: "fst (snd (Expunge_Handle example_server_updates example_conn)) =
     [Invoke example_conn example_inbox Call_Expunge]"
    by blast
  from a b c show ?thesis by (simp add: w)
qed

section \<open>Tagged status of a command\<close>

text \<open>
  C4. For a parsed command line: when the name is registered, the arguments parse and the
  handler returns no error, the turn writes (after the handler's own events) and yields
  the status \<open>tag OK NAME completed\<close>; when the handler returns an error, \<open>tag NO\<close> with
  the error's message; when the name is not registered, \<open>tag BAD Unknown command\<close>; when
  the arguments do not parse, \<open>tag BAD\<close> with the parser's message. The tag is the
  command's in every case.
\<close>

theorem handleConn_turn_status:
  "(\<forall>newHandler hdlr conn' evs.
      commands s (Name cmd) = Some newHandler \<and>
      call_Parse (newHandler ()) (Arguments cmd) = (None, hdlr) \<longrightarrow>
        (call_Handle hdlr conn = (conn', evs, Returns None) \<longrightarrow>
           handleConn_turn s conn (Inr cmd) =
             (let res = common_StatusResp
                  \<lparr>StatusResp_Tag = Tag cmd, Type = OK, Info = Name cmd @ '' completed''\<rparr>
              in (conn', evs @ [Write conn' res], Returns res))) \<and>
        (\<forall>err. call_Handle hdlr conn = (conn', evs, Returns (Some err)) \<longrightarrow>
           handleConn_turn s conn (Inr cmd) =
             (let res = common_StatusResp
                  \<lparr>StatusResp_Tag = Tag cmd, Type = NO, Info = Error err\<rparr>
              in (conn', evs @ [Write conn' res], Returns res)))) \<and>
   (commands s (Name cmd) = None \<longrightarrow>
      handleConn_turn s conn (Inr cmd) =
        (let res = common_StatusResp
             \<lparr>StatusResp_Tag = Tag cmd, Type = BAD, Info = ''Unknown command''\<rparr>
         in (conn, [Write conn res], Returns res))) \<and>
   (\<forall>newHandler hdlr err.
      commands s (Name cmd) = Some newHandler \<and>
      call_Parse (newHandler ()) (Arguments cmd) = (Some err, hdlr) \<longrightarrow>
        handleConn_turn s conn (Inr cmd) =
          (let res = common_StatusResp
               \<lparr>StatusResp_Tag = Tag cmd, Type = BAD, Info = Error err\<rparr>
           in (conn, [Write conn res], Returns res)))"
  by (simp add: handleConn_turn_def handleCommand_def getCommandHandler_def Let_def)

theorem handleConn_turn_status_witness:
  "handleConn_turn example_dispatcher example_conn
     (Inr \<lparr>Tag = ''a1'', Name = ''NOOP'', Arguments = []\<rparr>) =
     (example_conn,
      [Write example_conn (common_StatusResp
         \<lparr>StatusResp_Tag = ''a1'', Type = OK, Info = ''NOOP completed''\<rparr>)],
      Returns (common_StatusResp
         \<lparr>StatusResp_Tag = ''a1'', Type = OK, Info = ''NOOP completed''\<rparr>)) \<and>
   snd (snd (handleConn_turn example_dispatcher example_conn
     (Inr \<lparr>Tag = ''a2'', Name = ''CREATE'', Arguments = [FString ''x'']\<rparr>))) =
     Returns (common_StatusResp
       \<lparr>StatusResp_Tag = ''a2'', Type = NO, Info = ''Not allowed''\<rparr>) \<and>
   snd (snd (handleConn_turn example_dispatcher example_conn
     (Inr \<lparr>Tag = ''a3'', Name = ''FROB'', Arguments = []\<rparr>))) =
     Returns (common_StatusResp
       \<lparr>StatusResp_Tag = ''a3'', Type = BAD, Info = ''Unknown command''\<rparr>) \<and>
   snd (snd (handleConn_turn example_dispatcher example_conn
     (Inr \<lparr>Tag = ''a4'', Name = ''LOGIN'', Arguments = []\<rparr>))) =
     Returns (common_StatusResp
       \<lparr>StatusResp_Tag = ''a4'', Type = BAD, Info = ''Not enough arguments''\<rparr>)"
proof -
  have c: "commands example_dispatcher ''NOOP'' = Some (\<lambda>u. example_noop)"
      "commands example_dispatcher ''CREATE'' = Some (\<lambda>u. example_refusing)"
      "commands example_dispatcher ''FROB'' = None"
      "commands example_dispatcher ''LOGIN'' = Some (\<lambda>u. example_strict)"
    by (simp_all add: example_dispatcher_def)
  have p: "call_Parse example_noop [] = (None, example_noop)"
      "call_Parse example_refusing [FString ''x''] = (None, example_refusing)"
      "call_Parse example_strict [] = (Some (errors_New ''Not enough arguments''), example_strict)"
    by (simp_all add: call_Parse_def example_noop_def example_refusing_def example_strict_def)
  have h: "call_Handle example_noop example_conn = (example_conn, [], Returns None)"
      "call_Handle example_refusing example_conn =
         (example_conn, [], Returns (Some (errors_New ''Not allowed'')))"
    by (simp_all add: call_Handle_def example_noop_def example_refusing_def)
  from handleConn_turn_status [of example_dispatcher
      "\<lparr>Tag = ''a1'', Name = ''NOOP'', Arguments = []\<rparr>" example_conn] c(1) p(1) h(1)
  have 1: "handleConn_turn example_dispatcher example_conn
     (Inr \<lparr>Tag = ''a1'', Name = ''NOOP'', Arguments = []\<rparr>) =
     (example_conn,
      [Write example_conn (common_StatusResp
         \<lparr>StatusResp_Tag = ''a1'', Type = OK, Info = ''NOOP completed''\<rparr>)],
      Returns (common_StatusResp
         \<lparr>StatusResp_Tag = ''a1'', Type = OK, Info = ''NOOP completed''\<rparr>))"
    by (simp add: Let_def)
  from handleConn_turn_status [of example_dispatcher
      "\<lparr>Tag = ''a2'', Name = ''CREATE'', Arguments = [FString ''x'']\<rparr>" example_conn]
    c(2) p(2) h(2)
  have 2: "snd (snd (handleConn_turn example_dispatcher example_conn
     (Inr \<lparr>Tag = ''a2'', Name = ''CREATE'', Arguments = [FString ''x'']\<rparr>))) =
     Returns (common_StatusResp
       \<lparr>StatusResp_Tag = ''a2'', Type = NO, Info = ''Not allowed''\<rparr>)"
    by (simp add: Let_def)
  from handleConn_turn_status [of example_dispatcher
      "\<lparr>Tag = ''a3'', Name = ''FROB'', Arguments = []\<rparr>" example_conn] c(3)
  have 3: "snd (snd (handleConn_turn example_dispatcher example_conn
     (Inr \<lparr>Tag = ''a3'', Name = ''FROB'', Arguments = []\<rparr>))) =
     Returns (common_StatusResp
       \<lparr>StatusResp_Tag = ''a3'', Type = BAD, Info = ''Unknown command''\<rparr>)"
    by (simp add: Let_def)
  from handleConn_turn_status [of example_dispatcher
      "\<lparr>Tag = ''a4'', Name = ''LOGIN'', Arguments = []\<rparr>" example_conn] c(4) p(3)
  have 4: "snd (snd (handleConn_turn example_dispatcher example_conn
     (Inr \<lparr>Tag = ''a4'', Name = ''LOGIN'', Arguments = []\<rparr>))) =
     Returns (common_StatusResp
       \<lparr>StatusResp_Tag = ''a4'', Type = BAD, Info = ''Not enough arguments''\<rparr>)"
    by (simp add: Let_def)
  from 1 2 3 4 show ?thesis by blast
qed

section \<open>Update fan-out\<close>






section \<open>UID FETCH\<close>

lemma hasUid_set: "hasUid items = (''UID'' \<in> set items)"
  by (induction items) auto

text \<open>
  C7, as stated: UID FETCH of items that contain UID writes the same output as UID FETCH of
  the same items without UID. It fails where UID is not the last item: for the items
  \<open>UID FLAGS\<close> the backend is asked for \<open>UID FLAGS\<close>, for \<open>FLAGS\<close> it is asked for
  \<open>FLAGS UID\<close>, and the example mailbox, whose messages carry the items in the order they
  were requested, yields different FETCH responses.
\<close>

theorem Fetch_UidHandle_output_differs:
  "written (fst (snd (snd (Fetch_UidHandle
      \<lparr>Fetch_SeqSet = ''1'', Items = [''UID'', ''FLAGS'']\<rparr> example_conn)))) \<noteq>
   written (fst (snd (snd (Fetch_UidHandle
      \<lparr>Fetch_SeqSet = ''1'', Items = [''FLAGS'']\<rparr> example_conn))))"
  by (simp add: Fetch_UidHandle_def Fetch_handle_def example_conn_def example_inbox_def Let_def)

text \<open>
  C7, amended: UID FETCH appends UID at the end of the handler's item list if and only if
  UID is not already in it, and then runs the handler with UIDs on that list; so when UID
  is absent from the items, adding it as the last item changes nothing in what the handler
  does and returns.
\<close>

theorem Fetch_UidHandle_items:
  "Items (fst (Fetch_UidHandle cmd conn)) =
     (if ''UID'' \<in> set (Items cmd) then Items cmd else Items cmd @ [''UID'']) \<and>
   Fetch_SeqSet (fst (Fetch_UidHandle cmd conn)) = Fetch_SeqSet cmd \<and>
   snd (Fetch_UidHandle cmd conn) = Fetch_handle True (fst (Fetch_UidHandle cmd conn)) conn \<and>
   (''UID'' \<notin> set (Items cmd) \<longrightarrow>
      Fetch_UidHandle (cmd\<lparr>Items := Items cmd @ [''UID'']\<rparr>) conn = Fetch_UidHandle cmd conn)"
  by (simp add: Fetch_UidHandle_def hasUid_set Let_def)

theorem Fetch_UidHandle_items_witness:
  "''UID'' \<notin> set [''FLAGS''] \<and>
   Items (fst (Fetch_UidHandle \<lparr>Fetch_SeqSet = ''1'', Items = [''FLAGS'']\<rparr> example_conn)) =
     [''FLAGS'', ''UID''] \<and>
   Fetch_UidHandle \<lparr>Fetch_SeqSet = ''1'', Items = [''FLAGS'', ''UID'']\<rparr> example_conn =
     Fetch_UidHandle \<lparr>Fetch_SeqSet = ''1'', Items = [''FLAGS'']\<rparr> example_conn"
  using Fetch_UidHandle_items [of "\<lparr>Fetch_SeqSet = ''1'', Items = [''FLAGS'']\<rparr>" example_conn]
  by simp

section \<open>STORE\<close>

lemma Fetch_handle_selected:
  "Mailbox conn = Some mbox \<Longrightarrow>
   ListMessages mbox uid (Fetch_SeqSet cmd) (Items cmd) = (msgs, err) \<Longrightarrow>
   Fetch_handle uid cmd conn =
     (conn,
      [Invoke conn mbox (Call_ListMessages uid (Fetch_SeqSet cmd) (Items cmd)),
       Write conn (responses_Fetch msgs)],
      Returns (case err of Some e \<Rightarrow> Some e | None \<Rightarrow> WriteRes conn (responses_Fetch msgs)))"
  by (simp add: Fetch_handle_def Let_def split: option.splits)

lemma example_store_op:
  "TrimSuffix (Item example_store) SilentOp \<in> {SetFlags, AddFlags, RemoveFlags}"
  "TrimSuffix (Item example_store_silent) SilentOp \<in> {SetFlags, AddFlags, RemoveFlags}"
  "\<not> HasSuffix (Item example_store) SilentOp"
  "HasSuffix (Item example_store_silent) SilentOp"
  "TrimSuffix (Item example_store) SilentOp = ''+FLAGS''"
  "TrimSuffix (Item example_store_silent) SilentOp = ''+FLAGS''"
  by (simp_all add: example_store_def example_store_silent_def TrimSuffix_def HasSuffix_def
      SilentOp_def SetFlags_def AddFlags_def RemoveFlags_def)

text \<open>
  C8. When STORE reaches the backend call (a mailbox is selected read-write, the operation
  is one of the three supported, the value is a list of flags), the call
  \<open>UpdateMessagesFlags\<close> is the first event and is made on the connection with \<open>silent\<close>
  set to whether the item ends in \<open>.SILENT\<close> and every other field as it was; whatever
  the call returns, every later backend call is made on, and the handler returns, the
  connection with \<open>silent\<close> false and every other field as it was.
\<close>

theorem Store_handle_silent_scope:
  assumes "Mailbox conn = Some mbox" and "\<not> MailboxReadOnly conn"
    and "TrimSuffix (Item cmd) SilentOp \<in> {SetFlags, AddFlags, RemoveFlags}"
    and "Value cmd = FList flagsList" and "P flagsList = Inr flags"
  shows "(\<exists>evs. fst (snd (Store_handle P srv uid cmd conn)) =
            Invoke (conn\<lparr>silent := HasSuffix (Item cmd) SilentOp\<rparr>) mbox
              (Call_UpdateMessagesFlags uid (Store_SeqSet cmd)
                 (TrimSuffix (Item cmd) SilentOp) flags) # evs \<and>
            (\<forall>c m k. Invoke c m k \<in> set evs \<longrightarrow> c = conn\<lparr>silent := False\<rparr>)) \<and>
         fst (Store_handle P srv uid cmd conn) = conn\<lparr>silent := False\<rparr>"
proof -
  obtain c3 ev2 out where fh: "Fetch_handle uid
      \<lparr>Fetch_SeqSet = Store_SeqSet cmd,
       Items = (if uid then [''FLAGS'', ''UID''] else [''FLAGS''])\<rparr>
      (conn\<lparr>silent := False\<rparr>) = (c3, ev2, out)"
    using prod_cases3 by blast
  obtain msgs err where lm: "ListMessages mbox uid (Store_SeqSet cmd)
      (if uid then [''FLAGS'', ''UID''] else [''FLAGS'']) = (msgs, err)"
    by (cases "ListMessages mbox uid (Store_SeqSet cmd)
      (if uid then [''FLAGS'', ''UID''] else [''FLAGS''])")
  have m2: "Mailbox (conn\<lparr>silent := False\<rparr>) = Some mbox" using assms(1) by simp
  from Fetch_handle_selected [OF m2, of uid
      "\<lparr>Fetch_SeqSet = Store_SeqSet cmd,
        Items = (if uid then [''FLAGS'', ''UID''] else [''FLAGS''])\<rparr>" msgs err] lm fh
  have c3: "c3 = conn\<lparr>silent := False\<rparr>"
    and ev2: "ev2 = [Invoke (conn\<lparr>silent := False\<rparr>) mbox
                (Call_ListMessages uid (Store_SeqSet cmd)
                   (if uid then [''FLAGS'', ''UID''] else [''FLAGS''])),
              Write (conn\<lparr>silent := False\<rparr>) (responses_Fetch msgs)]"
    by simp_all
  show ?thesis
    unfolding Store_handle_reached [where P = P, OF assms] Let_def fh
    using c3 ev2 by (simp split: option.splits)
qed

theorem Store_handle_silent_scope_witness:
  "hd (fst (snd (Store_handle example_ParseStringList example_server_updates False
                   example_store_silent example_conn))) =
     Invoke (example_conn\<lparr>silent := True\<rparr>) example_inbox
        (Call_UpdateMessagesFlags False ''1'' ''+FLAGS'' [''Seen'']) \<and>
   silent (fst (Store_handle example_ParseStringList example_server_updates False
                  example_store_silent example_conn)) = False"
proof -
  have m: "Mailbox example_conn = Some example_inbox" and r: "\<not> MailboxReadOnly example_conn"
    by (simp_all add: example_conn_def)
  have v: "Value example_store_silent = FList [FString ''Seen'']"
    and p: "example_ParseStringList [FString ''Seen''] = Inr [''Seen'']"
    and s: "Store_SeqSet example_store_silent = ''1''"
    by (simp_all add: example_store_silent_def example_store_def)
  from Store_handle_silent_scope [where P = example_ParseStringList
      and srv = example_server_updates and uid = False, OF m r example_store_op(2) v p]
  show ?thesis by (auto simp: example_store_op s)
qed



section \<open>Client LOGOUT\<close>

text \<open>
  C10. \<open>Logout\<close> on a client in Logout state returns the error "Already logged out",
  executes no command and leaves the client as it was. In any other state it executes one
  LOGOUT command and returns: the error of \<open>execute\<close> if there is one, else no error when
  the final status is nil, else the status's \<open>Err\<close>.
\<close>

theorem Logout_result:
  "(Client_State c = LogoutState \<longrightarrow>
      Logout execute c = (c, [], Some (errors_New ''Already logged out''))) \<and>
   (Client_State c \<noteq> LogoutState \<longrightarrow>
      (\<forall>c' status err. execute c commands_Logout = (c', status, err) \<longrightarrow>
         Logout execute c =
           (c', [commands_Logout],
            (case err of
               Some e \<Rightarrow> Some e
             | None \<Rightarrow> (case status of None \<Rightarrow> None | Some st \<Rightarrow> Err st)))))"
  by (auto simp: Logout_def split: option.splits)

theorem Logout_result_witness:
  "Logout example_execute \<lparr>Client_State = LogoutState\<rparr> =
     (\<lparr>Client_State = LogoutState\<rparr>, [], Some (errors_New ''Already logged out'')) \<and>
   Logout example_execute \<lparr>Client_State = SelectedState\<rparr> =
     (\<lparr>Client_State = LogoutState\<rparr>, [commands_Logout], None) \<and>
   Logout example_execute_nil \<lparr>Client_State = SelectedState\<rparr> =
     (\<lparr>Client_State = LogoutState\<rparr>, [commands_Logout], None)"
  using Logout_result [of "\<lparr>Client_State = LogoutState\<rparr>" example_execute]
    Logout_result [of "\<lparr>Client_State = SelectedState\<rparr>" example_execute]
    Logout_result [of "\<lparr>Client_State = SelectedState\<rparr>" example_execute_nil]
  by (simp add: example_execute_def example_execute_nil_def Err_def)

end
